theory Spec2Isabelle
  imports Complex_Main "HOL-Library.Char_ord" "HOL-Library.List_Lexorder" "HOL-Library.Multiset"
begin

section \<open>The mortality dashboard (\<^verbatim>\<open>app.py\<close>): data model\<close>

text \<open>
  The script reads one CSV file into a dataframe, normalises its column names, detects the
  year, deaths, births and clinic columns by alias, coerces them to numbers, filters the rows by
  a year range and a clinic selection, and aggregates the filtered rows.

  Modelling choices, fixed here once:
  \<^item> A string is a list of 8-bit code points; \<open>str.strip\<close> and \<open>str.lower\<close> are modelled on
    that range (code points from 256 on are not represented).
  \<^item> A raw cell is missing, or it holds the text the CSV reader found together with the
    number that \<^verbatim>\<open>pd.to_numeric\<close> reads from that text (nothing when the text is not a number).
    The numeric parser of the library is therefore part of the input and is not modelled.
  \<^item> Numbers are exact reals: a value that binary floating point cannot hold exactly (a whole
    number beyond \<open>2 ^ 53\<close> in a column that also has a missing value) is kept exact here.
  \<^item> A row shorter than the header reads as missing in the absent cells, as the CSV reader pads it.
  \<^item> Clinic names are compared as text.
  \<^item> The widgets of the sidebar are inputs of the model: the year range, the selected clinics
    and the aggregation option.  The calls into the UI and charting toolkits are not
    modelled; they are taken to return.
  \<^item> Every exception the script does not catch is a value \<open>Uncaught e\<close>; the two conditions the
    script reports itself (\<^verbatim>\<open>st.error\<close> followed by \<^verbatim>\<open>st.stop\<close>) are \<open>SourceMissing\<close> and
    \<open>SchemaInvalid\<close>.
\<close>

datatype cell = NA | Cell string "real option"

fun cell_text :: "cell \<Rightarrow> string option" where
  "cell_text NA = None"
| "cell_text (Cell t n) = Some t"

fun cell_number :: "cell \<Rightarrow> real option" where
  "cell_number NA = None"
| "cell_number (Cell t n) = n"

record frame =
  columns :: "string list"
  rows :: "cell list list"

datatype pyexc = TypeError | AttributeError | KeyError

datatype error = SourceMissing | SchemaInvalid "string list" | Uncaught pyexc

record crec =
  year :: "int option"
  deaths :: "real option"
  births :: "real option"
  clinic :: "string option"

datatype agg_func = Sum | Mean

subsection \<open>Helpers: column normalisation and detection\<close>

definition isspace :: "char \<Rightarrow> bool" where
  "isspace c = (let n = (of_char c :: nat)
                in (9 \<le> n \<and> n \<le> 13) \<or> (28 \<le> n \<and> n \<le> 32) \<or> n = 133 \<or> n = 160)"

definition strip :: "string \<Rightarrow> string" where
  "strip s = rev (dropWhile isspace (rev (dropWhile isspace s)))"

definition lower_char :: "char \<Rightarrow> char" where
  "lower_char c = (let n = (of_char c :: nat)
                   in if (65 \<le> n \<and> n \<le> 90) \<or> (192 \<le> n \<and> n \<le> 222 \<and> n \<noteq> 215)
                      then char_of (n + 32) else c)"

definition lower :: "string \<Rightarrow> string" where
  "lower s = map lower_char s"

definition replace_space :: "string \<Rightarrow> string" where
  "replace_space s = map (\<lambda>c. if c = CHR '' '' then CHR ''_'' else c) s"

text \<open>\<^verbatim>\<open>df.columns.str.strip().str.lower().str.replace(" ", "_")\<close>\<close>

definition normalize_columns :: "frame \<Rightarrow> frame" where
  "normalize_columns df = df\<lparr>columns := map (\<lambda>c. replace_space (lower (strip c))) (columns df)\<rparr>"

fun find_first :: "string list \<Rightarrow> string list \<Rightarrow> string option" where
  "find_first df_cols [] = None"
| "find_first df_cols (c # candidates) =
     (if c \<in> set df_cols then Some c else find_first df_cols candidates)"

definition year_aliases :: "string list" where
  "year_aliases = [''year'', ''yr'']"

definition death_aliases :: "string list" where
  "death_aliases = [''deaths'', ''death'', ''deaths_count'', ''death_count'']"

definition birth_aliases :: "string list" where
  "birth_aliases = [''births'', ''birth'', ''birth_count'', ''births_count'']"

definition clinic_aliases :: "string list" where
  "clinic_aliases = [''clinic'', ''hospital'', ''place'', ''location'']"

subsection \<open>Selecting and coercing a column\<close>

text \<open>
  \<^verbatim>\<open>df[name]\<close> is a one-dimensional series when exactly one column carries the label; with a
  repeated label it is a two-dimensional frame, on which the operations the script applies
  next raise.
\<close>

datatype selection = Series "cell list" | DataFrame | NoColumn

definition cell_at :: "cell list \<Rightarrow> nat \<Rightarrow> cell" where
  "cell_at row i = (if i < length row then row ! i else NA)"

definition getitem :: "frame \<Rightarrow> string \<Rightarrow> selection" where
  "getitem df name =
     (case [i \<leftarrow> [0 ..< length (columns df)]. columns df ! i = name] of
        [] \<Rightarrow> NoColumn
      | [i] \<Rightarrow> Series (map (\<lambda>row. cell_at row i) (rows df))
      | _ \<Rightarrow> DataFrame)"

text \<open>\<^verbatim>\<open>pd.to_numeric(s, errors="coerce")\<close>: a cell that is missing or does not parse is missing.\<close>

definition to_numeric :: "selection \<Rightarrow> pyexc + real option list" where
  "to_numeric sel =
     (case sel of
        Series cs \<Rightarrow> Inr (map cell_number cs)
      | DataFrame \<Rightarrow> Inl TypeError
      | NoColumn \<Rightarrow> Inl KeyError)"

text \<open>
  \<^verbatim>\<open>.astype("Int64")\<close>: the nullable 64-bit integer type keeps missing values and refuses
  a value that is not a whole number or does not fit in 64 bits.
\<close>

definition astype_Int64 :: "real option list \<Rightarrow> pyexc + int option list" where
  "astype_Int64 xs =
     (if list_all (\<lambda>x. case x of None \<Rightarrow> True
                        | Some v \<Rightarrow> v = of_int \<lfloor>v\<rfloor> \<and> - (2 ^ 63) \<le> v \<and> v < 2 ^ 63) xs
      then Inr (map (map_option floor) xs) else Inl TypeError)"

subsection \<open>\<^verbatim>\<open>load_data\<close>\<close>

text \<open>
  The loaded dataframe: the frame with normalised column names, the detected alias of each
  logical field (\<^verbatim>\<open>df.attrs["cols_map"]\<close>) and, for each detected numeric field, its coerced
  column.
\<close>

record loaded =
  ldf :: frame
  year_col :: "string option"
  death_col :: "string option"
  birth_col :: "string option"
  clinic_col :: "string option"
  year_vals :: "int option list"
  death_vals :: "real option list"
  birth_vals :: "real option list"

definition coerce_float :: "frame \<Rightarrow> string option \<Rightarrow> pyexc + real option list" where
  "coerce_float df col =
     (case col of None \<Rightarrow> Inr [] | Some c \<Rightarrow> to_numeric (getitem df c))"

definition coerce_int :: "frame \<Rightarrow> string option \<Rightarrow> pyexc + int option list" where
  "coerce_int df col =
     (case col of None \<Rightarrow> Inr []
      | Some c \<Rightarrow> (case to_numeric (getitem df c) of
                     Inl e \<Rightarrow> Inl e
                   | Inr xs \<Rightarrow> astype_Int64 xs))"

definition load_data :: "frame \<Rightarrow> pyexc + loaded" where
  "load_data raw =
     (let df = normalize_columns raw;
          yc = find_first (columns df) year_aliases;
          dc = find_first (columns df) death_aliases;
          bc = find_first (columns df) birth_aliases;
          cc = find_first (columns df) clinic_aliases
      in case coerce_int df yc of
           Inl e \<Rightarrow> Inl e
         | Inr ys \<Rightarrow>
       (case coerce_float df dc of
           Inl e \<Rightarrow> Inl e
         | Inr ds \<Rightarrow>
       (case coerce_float df bc of
           Inl e \<Rightarrow> Inl e
         | Inr bs \<Rightarrow>
             Inr \<lparr>ldf = df, year_col = yc, death_col = dc, birth_col = bc, clinic_col = cc,
                  year_vals = ys, death_vals = ds, birth_vals = bs\<rparr>)))"

subsection \<open>The canonical dataset and the sidebar\<close>

text \<open>
  Lines 74 to 123 of the script: the file is read (a missing file is reported), the required
  columns are checked, a missing clinic column is replaced by the placeholder, the columns
  are renamed, and the bounds of the year slider and the options of the clinic selector are
  computed.  Coercing the already coerced columns a second time (lines 105 to 108) changes
  nothing.
\<close>

record canon =
  has_births :: bool
  recs :: "crec list"
  min_year :: int
  max_year :: int
  clinic_list :: "string list"

definition nonmissing :: "'a option list \<Rightarrow> 'a list" where
  "nonmissing xs = List.map_filter id xs"

definition mk_recs ::
  "int option list \<Rightarrow> real option list \<Rightarrow> real option list \<Rightarrow> cell list \<Rightarrow> crec list" where
  "mk_recs ys ds bs cs =
     map (\<lambda>(y, d, b, c). \<lparr>year = y, deaths = d, births = b, clinic = cell_text c\<rparr>)
         (zip ys (zip ds (zip bs cs)))"

definition clinic_series :: "loaded \<Rightarrow> selection" where
  "clinic_series ld =
     (case clinic_col ld of
        Some c \<Rightarrow> getitem (ldf ld) c
      | None \<Rightarrow>
          (if count_list (columns (ldf ld)) ''clinic_placeholder'' \<le> 1
           then Series (replicate (length (rows (ldf ld))) (Cell ''All'' None))
           else DataFrame))"

definition prepare :: "frame option \<Rightarrow> error + canon" where
  "prepare file =
     (case file of
        None \<Rightarrow> Inl SourceMissing
      | Some raw \<Rightarrow>
     (case load_data raw of
        Inl e \<Rightarrow> Inl (Uncaught e)
      | Inr ld \<Rightarrow>
          if year_col ld = None \<or> death_col ld = None
          then Inl (SchemaInvalid (columns (ldf ld)))
          else
            (case nonmissing (year_vals ld) of
               [] \<Rightarrow> Inl (Uncaught TypeError)
             | y # ys \<Rightarrow>
            (case clinic_series ld of
               Series cs \<Rightarrow>
                 Inr \<lparr>has_births = (birth_col ld \<noteq> None),
                      recs = mk_recs (year_vals ld) (death_vals ld)
                               (if birth_col ld = None
                                then replicate (length (rows (ldf ld))) None
                                else birth_vals ld) cs,
                      min_year = fold min ys y,
                      max_year = fold max ys y,
                      clinic_list = sort (remdups (nonmissing (map cell_text cs)))\<rparr>
             | _ \<Rightarrow> Inl (Uncaught AttributeError)))))"

subsection \<open>Filter data\<close>

text \<open>
  A comparison with a missing year is missing, \<^verbatim>\<open>&\<close> on nullable booleans is Kleene
  conjunction, and indexing by a nullable boolean mask keeps the rows whose mask is true.
\<close>

fun ge_na :: "int option \<Rightarrow> int \<Rightarrow> bool option" where
  "ge_na None b = None"
| "ge_na (Some a) b = Some (b \<le> a)"

fun le_na :: "int option \<Rightarrow> int \<Rightarrow> bool option" where
  "le_na None b = None"
| "le_na (Some a) b = Some (a \<le> b)"

fun and_na :: "bool option \<Rightarrow> bool option \<Rightarrow> bool option" where
  "and_na (Some False) q = Some False"
| "and_na p (Some False) = Some False"
| "and_na (Some True) (Some True) = Some True"
| "and_na p q = None"

definition getitem_mask :: "'a list \<Rightarrow> bool option list \<Rightarrow> 'a list" where
  "getitem_mask df msk = map fst [(r, m) \<leftarrow> zip df msk. m = Some True]"

fun isin :: "string option \<Rightarrow> string list \<Rightarrow> bool" where
  "isin None vs = False"
| "isin (Some c) vs = (c \<in> set vs)"

definition filtered :: "crec list \<Rightarrow> int \<times> int \<Rightarrow> string list \<Rightarrow> crec list" where
  "filtered df year_range selected_clinics =
     (let f = getitem_mask df
                (map (\<lambda>r. and_na (ge_na (year r) (fst year_range))
                                   (le_na (year r) (snd year_range))) df)
      in if selected_clinics \<noteq> []
         then getitem_mask f (map (\<lambda>r. Some (isin (clinic r) selected_clinics)) f)
         else f)"

subsection \<open>Aggregation\<close>

text \<open>
  \<^verbatim>\<open>.agg("sum")\<close> and \<^verbatim>\<open>.agg("mean")\<close> skip missing values; the sum of nothing is 0 and the
  mean of nothing is missing.
\<close>

fun agg :: "agg_func \<Rightarrow> real option list \<Rightarrow> real option" where
  "agg Sum vs = Some (sum_list (nonmissing vs))"
| "agg Mean vs =
     (if nonmissing vs = [] then None
      else Some (sum_list (nonmissing vs) / real (length (nonmissing vs))))"

text \<open>
  \<^verbatim>\<open>df.groupby(key)[val].agg(f).reset_index()\<close>: one row per distinct non-missing key, in
  ascending order of the key, holding the reduction of the group's values.
\<close>

definition groupby_agg ::
  "(crec \<Rightarrow> ('k::linorder) option) \<Rightarrow> (crec \<Rightarrow> real option) \<Rightarrow> agg_func \<Rightarrow> crec list
     \<Rightarrow> ('k \<times> real option) list" where
  "groupby_agg key val f df =
     map (\<lambda>k. (k, agg f (map val [r \<leftarrow> df. key r = Some k])))
         (sort (remdups (nonmissing (map key df))))"

definition deaths_by_year :: "agg_func \<Rightarrow> crec list \<Rightarrow> (int \<times> real option) list" where
  "deaths_by_year f df = groupby_agg year deaths f df"



definition clinic_agg ::
  "((string \<times> real option) list \<Rightarrow> (string \<times> real option) list) \<Rightarrow> agg_func \<Rightarrow> crec list
     \<Rightarrow> (string \<times> real option) list" where
  "clinic_agg srt f df = srt (groupby_agg clinic deaths f df)"

definition total_deaths :: "agg_func \<Rightarrow> crec list \<Rightarrow> real option" where
  "total_deaths f df = agg f (map deaths df)"

definition total_births :: "agg_func \<Rightarrow> crec list \<Rightarrow> real option" where
  "total_births f df = agg f (map births df)"

text \<open>
  Two sorts that meet the contract.  \<open>sort_values_stable\<close> follows the library's index sort
  when the underlying array sort is stable: the rows with a value are reversed, sorted in
  ascending order, reversed again, and the rows with a missing value follow.
  \<open>sort_values_rev\<close> leaves equal values in the opposite order.
\<close>

fun val_of :: "string \<times> real option \<Rightarrow> real" where
  "val_of (c, Some x) = x"
| "val_of (c, None) = 0"

definition sort_values_stable ::
  "(string \<times> real option) list \<Rightarrow> (string \<times> real option) list" where
  "sort_values_stable xs =
     rev (sort_key val_of (rev [x \<leftarrow> xs. snd x \<noteq> None])) @ [x \<leftarrow> xs. snd x = None]"

definition sort_values_rev ::
  "(string \<times> real option) list \<Rightarrow> (string \<times> real option) list" where
  "sort_values_rev xs = sort_values_stable (rev xs)"

subsection \<open>The whole script\<close>

record ui =
  year_range :: "int \<times> int"
  selected_clinics :: "string list"
  agg_option :: agg_func

record charts =
  out_filtered :: "crec list"
  out_deaths_by_year :: "(int \<times> real option) list"
  out_comp :: "(int \<times> string \<times> real option) list option"
  out_clinic_agg :: "(string \<times> real option) list"
  out_total_deaths :: "real option"
  out_total_births :: "real option option"

text \<open>
  \<^verbatim>\<open>groupby("year")[["deaths", "births"]].agg(f).reset_index().melt("year", ...)\<close>: the
  deaths rows of every year, then the births rows.
\<close>

definition comp_df :: "agg_func \<Rightarrow> crec list \<Rightarrow> (int \<times> string \<times> real option) list" where
  "comp_df f df =
     map (\<lambda>(y, v). (y, ''deaths'', v)) (groupby_agg year deaths f df) @
     map (\<lambda>(y, v). (y, ''births'', v)) (groupby_agg year births f df)"

definition render ::
  "((string \<times> real option) list \<Rightarrow> (string \<times> real option) list) \<Rightarrow> canon \<Rightarrow> ui \<Rightarrow> charts" where
  "render srt cf u =
     (let fl = filtered (recs cf) (year_range u) (selected_clinics u);
          f = agg_option u
      in \<lparr>out_filtered = fl,
          out_deaths_by_year = deaths_by_year f fl,
          out_comp = (if has_births cf then Some (comp_df f fl) else None),
          out_clinic_agg = clinic_agg srt f fl,
          out_total_deaths = total_deaths f fl,
          out_total_births = (if has_births cf then Some (total_births f fl) else None)\<rparr>)"

definition app ::
  "((string \<times> real option) list \<Rightarrow> (string \<times> real option) list) \<Rightarrow> frame option \<Rightarrow> ui
     \<Rightarrow> error + charts" where
  "app srt file u =
     (case prepare file of Inl e \<Rightarrow> Inl e | Inr cf \<Rightarrow> Inr (render srt cf u))"

subsection \<open>Specification-side predicates\<close>

text \<open>
  "The first alias present": \<open>r\<close> is the candidate of least index that occurs in the column
  set, or nothing when no candidate occurs.  Occurrence is equality of whole names.
\<close>

definition first_alias_present :: "string list \<Rightarrow> string list \<Rightarrow> string option \<Rightarrow> bool" where
  "first_alias_present df_cols candidates r =
     (case r of
        None \<Rightarrow> (\<forall>c \<in> set candidates. c \<notin> set df_cols)
      | Some c \<Rightarrow> (\<exists>i < length candidates. candidates ! i = c \<and> c \<in> set df_cols \<and>
                     (\<forall>j < i. candidates ! j \<notin> set df_cols)))"


section \<open>Column detection\<close>

lemma find_first_None: "find_first cols cands = None \<longleftrightarrow> (\<forall>c \<in> set cands. c \<notin> set cols)"
  by (induction cands) auto

lemma find_first_Some:
  "find_first cols cands = Some c \<Longrightarrow>
     \<exists>i < length cands. cands ! i = c \<and> c \<in> set cols \<and> (\<forall>j < i. cands ! j \<notin> set cols)"
proof (induction cands)
  case Nil
  then show ?case by simp
next
  case (Cons a cands)
  show ?case
  proof (cases "a \<in> set cols")
    case True
    with Cons.prems have "a = c" by simp
    with True show ?thesis by (intro exI[of _ 0]) simp
  next
    case False
    with Cons.prems have "find_first cols cands = Some c" by simp
    from Cons.IH[OF this] obtain i where i: "i < length cands" "cands ! i = c" "c \<in> set cols"
      "\<forall>j < i. cands ! j \<notin> set cols" by blast
    have "\<forall>j < Suc i. (a # cands) ! j \<notin> set cols"
      using False i(4) by (auto simp: nth_Cons split: nat.splits)
    with i show ?thesis by (intro exI[of _ "Suc i"]) simp
  qed
qed

lemma find_first_present: "first_alias_present cols cands (find_first cols cands)"
  unfolding first_alias_present_def
  by (auto split: option.splits simp: find_first_None dest: find_first_Some)

lemma first_alias_present_unique:
  assumes "first_alias_present cols cands r" "first_alias_present cols cands r'"
  shows "r = r'"
proof (cases r)
  case None
  with assms(1) have n: "\<forall>c \<in> set cands. c \<notin> set cols"
    by (simp add: first_alias_present_def)
  show ?thesis
  proof (cases r')
    case None
    with \<open>r = None\<close> show ?thesis by simp
  next
    case (Some c')
    with assms(2) obtain i where "i < length cands" "cands ! i = c'" "c' \<in> set cols"
      by (auto simp: first_alias_present_def)
    with n show ?thesis using nth_mem by blast
  qed
next
  case (Some c)
  with assms(1) obtain i where i: "i < length cands" "cands ! i = c" "c \<in> set cols"
    "\<forall>j < i. cands ! j \<notin> set cols"
    by (auto simp: first_alias_present_def)
  show ?thesis
  proof (cases r')
    case None
    with assms(2) have "\<forall>c \<in> set cands. c \<notin> set cols"
      by (simp add: first_alias_present_def)
    with i show ?thesis using nth_mem by blast
  next
    case (Some c')
    with assms(2) obtain k where k: "k < length cands" "cands ! k = c'" "c' \<in> set cols"
      "\<forall>j < k. cands ! j \<notin> set cols"
      by (auto simp: first_alias_present_def)
    have "i = k"
    proof (rule ccontr)
      assume "i \<noteq> k"
      then consider "i < k" | "k < i" by linarith
      then show False
      proof cases
        case 1 with k(4) i(2,3) show False by blast
      next
        case 2 with i(4) k(2,3) show False by blast
      qed
    qed
    with i(2) k(2) \<open>r = Some c\<close> Some show ?thesis by simp
  qed
qed

lemma first_alias_present_iff:
  "first_alias_present cols cands r \<longleftrightarrow> r = find_first cols cands"
  using first_alias_present_unique find_first_present by blast

lemma load_data_cols:
  assumes "load_data raw = Inr ld"
  shows "ldf ld = normalize_columns raw"
    and "year_col ld = find_first (columns (ldf ld)) year_aliases"
    and "death_col ld = find_first (columns (ldf ld)) death_aliases"
    and "birth_col ld = find_first (columns (ldf ld)) birth_aliases"
    and "clinic_col ld = find_first (columns (ldf ld)) clinic_aliases"
  using assms by (auto simp: load_data_def Let_def split: sum.splits)

lemmas eval_defs =
  load_data_def normalize_columns_def strip_def lower_def lower_char_def replace_space_def
  isspace_def char_of_def bit_Suc_0_iff year_aliases_def death_aliases_def birth_aliases_def
  clinic_aliases_def coerce_int_def coerce_float_def getitem_def to_numeric_def astype_Int64_def
  cell_at_def

lemma load_data_example:
  "load_data
     \<lparr>columns = [''Yr'', '' YEAR '', ''Death Count'', ''Deaths'', ''Birth'', ''Location'',
                 ''Hospital''],
      rows = [[Cell ''54'' (Some 54), Cell ''1854'' (Some 1854), Cell ''x'' None,
               Cell ''10.5'' (Some (21 / 2)), NA, Cell ''East'' None, Cell ''St Mary'' None]]\<rparr>
   = Inr \<lparr>ldf = \<lparr>columns = [''yr'', ''year'', ''death_count'', ''deaths'', ''birth'',
                               ''location'', ''hospital''],
                   rows = [[Cell ''54'' (Some 54), Cell ''1854'' (Some 1854), Cell ''x'' None,
                            Cell ''10.5'' (Some (21 / 2)), NA, Cell ''East'' None,
                            Cell ''St Mary'' None]]\<rparr>,
          year_col = Some ''year'', death_col = Some ''deaths'', birth_col = Some ''birth'',
          clinic_col = Some ''hospital'', year_vals = [Some 1854],
          death_vals = [Some (21 / 2)], birth_vals = [None]\<rparr>"
  by (simp add: eval_defs upt_rec)

text \<open>
  C6.  Each logical field is resolved by scanning its fixed alias list in the stated order
  and taking the first alias that is a column name, where a column name matches an alias only
  when the two are equal:
  \<^item> \<open>find_first\<close> returns exactly the first candidate present, for every candidate list;
  \<^item> the four scans of \<open>load_data\<close> run over the lists \<open>year, yr\<close>;
    \<open>deaths, death, deaths_count, death_count\<close>; \<open>births, birth, birth_count, births_count\<close>;
    \<open>clinic, hospital, place, location\<close>, in this order, on the normalised column names;
  \<^item> a column \<open>deaths\<close> wins over every other deaths alias, \<open>death_count\<close> included.
\<close>

theorem alias_priority:
  "(first_alias_present df_cols candidates r \<longleftrightarrow> r = find_first df_cols candidates) \<and>
   (''deaths'' \<in> set df_cols \<longrightarrow> find_first df_cols death_aliases = Some ''deaths'') \<and>
   (load_data raw = Inr ld \<longrightarrow>
      first_alias_present (columns (normalize_columns raw))
        [''year'', ''yr''] (year_col ld) \<and>
      first_alias_present (columns (normalize_columns raw))
        [''deaths'', ''death'', ''deaths_count'', ''death_count''] (death_col ld) \<and>
      first_alias_present (columns (normalize_columns raw))
        [''births'', ''birth'', ''birth_count'', ''births_count''] (birth_col ld) \<and>
      first_alias_present (columns (normalize_columns raw))
        [''clinic'', ''hospital'', ''place'', ''location''] (clinic_col ld))"
proof (intro conjI impI)
  show "first_alias_present df_cols candidates r \<longleftrightarrow> r = find_first df_cols candidates"
    by (rule first_alias_present_iff)
next
  assume "''deaths'' \<in> set df_cols"
  then show "find_first df_cols death_aliases = Some ''deaths''"
    by (simp add: death_aliases_def)
next
  assume ld: "load_data raw = Inr ld"
  note c = load_data_cols[OF ld]
  show "first_alias_present (columns (normalize_columns raw)) [''year'', ''yr''] (year_col ld)"
    using c(1,2) find_first_present[of "columns (ldf ld)" year_aliases]
    by (simp add: year_aliases_def)
  show "first_alias_present (columns (normalize_columns raw))
          [''deaths'', ''death'', ''deaths_count'', ''death_count''] (death_col ld)"
    using c(1,3) find_first_present[of "columns (ldf ld)" death_aliases]
    by (simp add: death_aliases_def)
  show "first_alias_present (columns (normalize_columns raw))
          [''births'', ''birth'', ''birth_count'', ''births_count''] (birth_col ld)"
    using c(1,4) find_first_present[of "columns (ldf ld)" birth_aliases]
    by (simp add: birth_aliases_def)
  show "first_alias_present (columns (normalize_columns raw))
          [''clinic'', ''hospital'', ''place'', ''location''] (clinic_col ld)"
    using c(1,5) find_first_present[of "columns (ldf ld)" clinic_aliases]
    by (simp add: clinic_aliases_def)
qed

text \<open>
  An instance: a frame with the columns \<open>Yr\<close>, \<open>YEAR\<close>, \<open>Death Count\<close>, \<open>Deaths\<close>,
  \<open>Birth\<close>, \<open>Location\<close> and \<open>Hospital\<close> resolves to \<open>year\<close>, \<open>deaths\<close>, \<open>birth\<close> and
  \<open>hospital\<close>; a column \<open>deaths_total\<close> alone resolves the deaths field to nothing.
\<close>

theorem alias_priority_witness:
  "first_alias_present [''deaths_total'', ''death_count'', ''death'']
     [''deaths'', ''death'', ''deaths_count'', ''death_count''] (Some ''death'') \<and>
   first_alias_present [''deaths_total'']
     [''deaths'', ''death'', ''deaths_count'', ''death_count''] None \<and>
   ''deaths'' \<in> set [''death_count'', ''deaths''] \<and>
   find_first [''death_count'', ''deaths''] death_aliases = Some ''deaths'' \<and>
   first_alias_present
     [''yr'', ''year'', ''death_count'', ''deaths'', ''birth'', ''location'', ''hospital'']
     [''year'', ''yr''] (Some ''year'') \<and>
   first_alias_present
     [''yr'', ''year'', ''death_count'', ''deaths'', ''birth'', ''location'', ''hospital'']
     [''deaths'', ''death'', ''deaths_count'', ''death_count''] (Some ''deaths'') \<and>
   first_alias_present
     [''yr'', ''year'', ''death_count'', ''deaths'', ''birth'', ''location'', ''hospital'']
     [''births'', ''birth'', ''birth_count'', ''births_count''] (Some ''birth'') \<and>
   first_alias_present
     [''yr'', ''year'', ''death_count'', ''deaths'', ''birth'', ''location'', ''hospital'']
     [''clinic'', ''hospital'', ''place'', ''location''] (Some ''hospital'')"
proof -
  let ?raw = "\<lparr>columns = [''Yr'', '' YEAR '', ''Death Count'', ''Deaths'', ''Birth'', ''Location'',
                 ''Hospital''],
      rows = [[Cell ''54'' (Some 54), Cell ''1854'' (Some 1854), Cell ''x'' None,
               Cell ''10.5'' (Some (21 / 2)), NA, Cell ''East'' None, Cell ''St Mary'' None]]\<rparr>"
  let ?ld = "\<lparr>ldf = \<lparr>columns = [''yr'', ''year'', ''death_count'', ''deaths'', ''birth'',
                               ''location'', ''hospital''],
                   rows = [[Cell ''54'' (Some 54), Cell ''1854'' (Some 1854), Cell ''x'' None,
                            Cell ''10.5'' (Some (21 / 2)), NA, Cell ''East'' None,
                            Cell ''St Mary'' None]]\<rparr>,
          year_col = Some ''year'', death_col = Some ''deaths'', birth_col = Some ''birth'',
          clinic_col = Some ''hospital'', year_vals = [Some 1854],
          death_vals = [Some (21 / 2)], birth_vals = [None]\<rparr>"
  have n: "columns (normalize_columns ?raw) =
      [''yr'', ''year'', ''death_count'', ''deaths'', ''birth'', ''location'', ''hospital'']"
    by (simp add: eval_defs)
  have a: "find_first [''deaths_total'', ''death_count'', ''death'']
      [''deaths'', ''death'', ''deaths_count'', ''death_count''] = Some ''death''"
    by simp
  have b: "find_first [''deaths_total'']
      [''deaths'', ''death'', ''deaths_count'', ''death_count''] = None"
    by simp
  have m: "''deaths'' \<in> set [''death_count'', ''deaths'']"
    by simp
  show ?thesis
    using alias_priority[of "[''deaths_total'', ''death_count'', ''death'']"
        "[''deaths'', ''death'', ''deaths_count'', ''death_count'']" "Some ''death''" ?raw ?ld]
      alias_priority[of "[''deaths_total'']"
        "[''deaths'', ''death'', ''deaths_count'', ''death_count'']" None ?raw ?ld]
      alias_priority[of "[''death_count'', ''deaths'']" "[]" None ?raw ?ld]
      load_data_example n a b m
    by simp
qed

section \<open>Filtering\<close>

lemma getitem_mask_map:
  "getitem_mask df (map f df) = [r \<leftarrow> df. f r = Some True]"
  unfolding getitem_mask_def by (induction df) auto

lemma range_mask:
  "and_na (ge_na y lo) (le_na y hi) = Some True \<longleftrightarrow> (\<exists>v. y = Some v \<and> lo \<le> v \<and> v \<le> hi)"
  by (cases y) (auto elim: and_na.elims)

lemma isin_iff: "isin c vs \<longleftrightarrow> (\<exists>n. c = Some n \<and> n \<in> set vs)"
  by (cases c) auto

lemma filtered_eq:
  "filtered df (lo, hi) sel =
     [r \<leftarrow> df. (\<exists>y. year r = Some y \<and> lo \<le> y \<and> y \<le> hi) \<and>
               (sel = [] \<or> (\<exists>c. clinic r = Some c \<and> c \<in> set sel))]"
  by (simp add: filtered_def Let_def getitem_mask_map range_mask isin_iff)

text \<open>
  C1.  The filtered rows are exactly the rows, in their order, whose year is present and lies
  in \<open>[lo, hi]\<close> and whose clinic is selected, where an empty selection selects every row.
  A row whose year is missing is never kept.
\<close>

theorem filtered_keeps_iff:
  "filtered df (lo, hi) sel =
     [r \<leftarrow> df. (\<exists>y. year r = Some y \<and> lo \<le> y \<and> y \<le> hi) \<and>
               (sel = [] \<or> (\<exists>c. clinic r = Some c \<and> c \<in> set sel))] \<and>
   (\<forall>r \<in> set df. year r = None \<longrightarrow> r \<notin> set (filtered df (lo, hi) sel))"
  by (simp add: filtered_eq)

theorem filtered_keeps_iff_witness:
  "filtered
     [\<lparr>year = Some 1854, deaths = Some 10, births = None, clinic = Some ''A''\<rparr>,
      \<lparr>year = None, deaths = Some 7, births = None, clinic = Some ''A''\<rparr>,
      \<lparr>year = Some 1855, deaths = Some 20, births = None, clinic = Some ''B''\<rparr>,
      \<lparr>year = Some 1860, deaths = Some 5, births = None, clinic = Some ''A''\<rparr>]
     (1854, 1855) [''A''] =
   [\<lparr>year = Some 1854, deaths = Some 10, births = None, clinic = Some ''A''\<rparr>] \<and>
   \<lparr>year = None, deaths = Some 7, births = None, clinic = Some ''A''\<rparr> \<notin> set (filtered
     [\<lparr>year = Some 1854, deaths = Some 10, births = None, clinic = Some ''A''\<rparr>,
      \<lparr>year = None, deaths = Some 7, births = None, clinic = Some ''A''\<rparr>,
      \<lparr>year = Some 1855, deaths = Some 20, births = None, clinic = Some ''B''\<rparr>,
      \<lparr>year = Some 1860, deaths = Some 5, births = None, clinic = Some ''A''\<rparr>]
     (1854, 1855) [''A''])"
  using filtered_keeps_iff[of
     "[\<lparr>year = Some 1854, deaths = Some 10, births = None, clinic = Some ''A''\<rparr>,
      \<lparr>year = None, deaths = Some 7, births = None, clinic = Some ''A''\<rparr>,
      \<lparr>year = Some 1855, deaths = Some 20, births = None, clinic = Some ''B''\<rparr>,
      \<lparr>year = Some 1860, deaths = Some 5, births = None, clinic = Some ''A''\<rparr>]"
     1854 1855 "[''A'']"]
  by simp

section \<open>Aggregation\<close>



lemma nonmissing_Nil [simp]: "nonmissing [] = []"
  by (simp add: nonmissing_def)




lemma groupby_Nil [simp]: "groupby_agg key val f [] = []"
  by (simp add: groupby_agg_def)

subsection \<open>The two sorts meet the contract\<close>











lemma filter_None_nonmissing: "[y \<leftarrow> [x \<leftarrow> xs. snd x \<noteq> None]. snd y = None] = []"
  by (induction xs) auto














section \<open>Examples evaluated on the whole script\<close>

lemmas agg_eval_defs =
  clinic_agg_def groupby_agg_def deaths_by_year_def total_deaths_def total_births_def
  nonmissing_def List.map_filter_def sort_values_stable_def sort_values_rev_def
  filtered_def getitem_mask_def comp_df_def render_def

lemmas prepare_eval_defs =
  prepare_def clinic_series_def mk_recs_def nonmissing_def List.map_filter_def eval_defs upt_rec

text \<open>The example of the specification: three records, two clinics, two years.\<close>

lemma prepare_example:
  "prepare (Some \<lparr>columns = [''Year'', ''Deaths'', ''Clinic''],
       rows = [[Cell ''1854'' (Some 1854), Cell ''10'' (Some 10), Cell ''A'' None],
               [Cell ''1854'' (Some 1854), Cell ''20'' (Some 20), Cell ''B'' None],
               [Cell ''1855'' (Some 1855), Cell ''5'' (Some 5), Cell ''A'' None]]\<rparr>) =
   Inr \<lparr>has_births = False,
        recs = [\<lparr>year = Some 1854, deaths = Some 10, births = None, clinic = Some ''A''\<rparr>,
                \<lparr>year = Some 1854, deaths = Some 20, births = None, clinic = Some ''B''\<rparr>,
                \<lparr>year = Some 1855, deaths = Some 5, births = None, clinic = Some ''A''\<rparr>],
        min_year = 1854, max_year = 1855, clinic_list = [''A'', ''B'']\<rparr>"
  by (simp add: prepare_eval_defs)

lemma app_example:
  "app sort_values_stable (Some \<lparr>columns = [''Year'', ''Deaths'', ''Clinic''],
       rows = [[Cell ''1854'' (Some 1854), Cell ''10'' (Some 10), Cell ''A'' None],
               [Cell ''1854'' (Some 1854), Cell ''20'' (Some 20), Cell ''B'' None],
               [Cell ''1855'' (Some 1855), Cell ''5'' (Some 5), Cell ''A'' None]]\<rparr>)
     \<lparr>year_range = (1854, 1855), selected_clinics = [], agg_option = Sum\<rparr> =
   Inr \<lparr>out_filtered =
          [\<lparr>year = Some 1854, deaths = Some 10, births = None, clinic = Some ''A''\<rparr>,
           \<lparr>year = Some 1854, deaths = Some 20, births = None, clinic = Some ''B''\<rparr>,
           \<lparr>year = Some 1855, deaths = Some 5, births = None, clinic = Some ''A''\<rparr>],
        out_deaths_by_year = [(1854, Some 30), (1855, Some 5)],
        out_comp = None,
        out_clinic_agg = [(''B'', Some 20), (''A'', Some 15)],
        out_total_deaths = Some 35, out_total_births = None\<rparr>"
  unfolding app_def prepare_example by (simp add: agg_eval_defs)

section \<open>An empty filter result\<close>




section \<open>Records with a missing year\<close>








section \<open>The clinic aggregate\<close>












section \<open>The canonical dataset\<close>











lemma rows_normalize [simp]: "rows (normalize_columns raw) = rows raw"
  by (simp add: normalize_columns_def)
















section \<open>Where the script stops\<close>

text \<open>
  Once \<open>load_data\<close> has returned, a missing year or deaths column is reported with the
  normalised column names, and nothing is filtered or aggregated.
\<close>

lemma schema_invalid_after_load:
  assumes "load_data raw = Inr ld" "year_col ld = None \<or> death_col ld = None"
  shows "app srt (Some raw) u = Inl (SchemaInvalid (columns (normalize_columns raw)))"
  using assms load_data_cols(1)[OF assms(1)] by (simp add: app_def prepare_def)



end
